theory Spec2Isabelle
  imports Complex_Main "HOL-Library.Multiset"
begin

section \<open>The review router of the shop: data model\<close>

text \<open>
  The module \<^verbatim>\<open>app/routers/reviews.py\<close> holds one helper, \<^verbatim>\<open>update_product_rating\<close>,
  and three request handlers, \<^verbatim>\<open>get_all_reviews\<close>, \<^verbatim>\<open>create_review\<close> and
  \<^verbatim>\<open>delete_review\<close>. They read and write two tables through a session. The ORM classes
  and the request schema live in modules that the router only imports; the records below
  carry the columns the router touches (the data model of the specification lists the same
  columns).

  A row of the review table. Identifiers and grades are Python integers.
\<close>

record Review =
  r_id :: int
  r_user_id :: int
  r_product_id :: int
  r_comment :: string
  r_grade :: int
  r_is_active :: bool

text \<open>
  A row of the product table, without its primary key: the router reaches a product only
  through its key, so the table is a map from the key to the remaining columns, and two
  products never share a key. The rating is the value of \<^verbatim>\<open>round(float(avg), 2)\<close>; the
  model computes with exact rationals where Python computes with binary floating point.
\<close>

record Product =
  p_rating :: rat
  p_is_active :: bool

text \<open>The caller as the authorisation dependency hands it over; the router reads its key only.\<close>

record UserModel =
  u_id :: int

text \<open>The body of a POST request.\<close>

record ReviewCreate =
  rc_product_id :: int
  rc_comment :: string
  rc_grade :: int

text \<open>
  The persisted state that a session sees: the review table in storage order and the product
  table by primary key.
\<close>

record database =
  reviews :: "Review list"
  products :: "int \<rightharpoonup> Product"

datatype HTTPException = HTTPException (status_code: nat) (detail: string)

definition HTTP_404_NOT_FOUND :: nat where
  "HTTP_404_NOT_FOUND = 404"

definition HTTP_400_BAD_REQUEST :: nat where
  "HTTP_400_BAD_REQUEST = 400"

section \<open>Queries and arithmetic used by the handlers\<close>

text \<open>
  The aggregate \<^verbatim>\<open>select(func.avg(Review.grade)).where(product_id == pid, is_active == True)\<close>:
  SQL's AVG is NULL (Python \<^verbatim>\<open>None\<close>) over no rows and the mean otherwise.
\<close>

definition active_grades :: "Review list \<Rightarrow> int \<Rightarrow> int list" where
  "active_grades rs product_id =
     map r_grade (filter (\<lambda>r. r_product_id r = product_id \<and> r_is_active r) rs)"

definition avg_grade :: "Review list \<Rightarrow> int \<Rightarrow> rat option" where
  "avg_grade rs product_id =
     (let gs = active_grades rs product_id
      in if gs = [] then None else Some (of_int (sum_list gs) / of_int (int (length gs))))"

text \<open>
  \<^verbatim>\<open>result.scalar() or 0.0\<close>: Python's \<^verbatim>\<open>or\<close> yields its right operand when the left one is
  falsy, which \<^verbatim>\<open>None\<close> and a numeric zero both are.
\<close>

definition scalar_or_zero :: "rat option \<Rightarrow> rat" where
  "scalar_or_zero a = (case a of None \<Rightarrow> 0 | Some x \<Rightarrow> if x = 0 then 0 else x)"

text \<open>
  \<^verbatim>\<open>round(x, 2)\<close>: the nearest multiple of one hundredth, a tie going to the even
  hundredth, computed on the exact value.
\<close>

definition round_half_even :: "rat \<Rightarrow> int" where
  "round_half_even x =
     (let f = \<lfloor>x\<rfloor>; d = x - of_int f
      in if d < 1 / 2 then f
         else if 1 / 2 < d then f + 1
         else if even f then f else f + 1)"

definition round2 :: "rat \<Rightarrow> rat" where
  "round2 x = of_int (round_half_even (x * 100)) / 100"

text \<open>
  \<^verbatim>\<open>select(Product).where(id == pid, is_active == True)\<close> followed by \<^verbatim>\<open>first()\<close>.
\<close>

definition active_product :: "database \<Rightarrow> int \<Rightarrow> Product option" where
  "active_product db product_id =
     (case products db product_id of
        None \<Rightarrow> None
      | Some p \<Rightarrow> if p_is_active p then Some p else None)"

text \<open>
  The primary key that the store gives a row inserted without one. The router leaves the
  choice to the store; the model takes the key after the largest one in the table (1 in an
  empty table), which is never a key already present.
\<close>

definition fresh_id :: "Review list \<Rightarrow> int" where
  "fresh_id rs = fold max (map r_id rs) 0 + 1"

text \<open>
  \<^verbatim>\<open>update(Review).where(Review.id == review_id).values(is_active=False)\<close>: every row with
  the key gets the flag cleared; no row is added or removed.
\<close>

definition deactivate :: "int \<Rightarrow> Review list \<Rightarrow> Review list" where
  "deactivate review_id rs =
     map (\<lambda>r. if r_id r = review_id then r\<lparr>r_is_active := False\<rparr> else r) rs"

section \<open>The helper and the handlers\<close>

definition update_product_rating :: "database \<Rightarrow> int \<Rightarrow> database" where
  "update_product_rating db product_id =
     (let avg_rating = scalar_or_zero (avg_grade (reviews db) product_id)
      in case products db product_id of
           None \<Rightarrow> db
         | Some product \<Rightarrow>
             db\<lparr>products := (products db)(product_id \<mapsto> product\<lparr>p_rating := round2 avg_rating\<rparr>)\<rparr>)"

definition get_all_reviews :: "database \<Rightarrow> Review list" where
  "get_all_reviews db = filter r_is_active (reviews db)"

text \<open>
  A handler returns its answer, or the exception it raises, together with the state it
  leaves in the store.
\<close>

definition create_review ::
  "ReviewCreate \<Rightarrow> database \<Rightarrow> UserModel \<Rightarrow> (HTTPException + Review) \<times> database" where
  "create_review review db current_user =
     (case active_product db (rc_product_id review) of
        None \<Rightarrow> (Inl (HTTPException HTTP_404_NOT_FOUND ''Product not found or inactive''), db)
      | Some product \<Rightarrow>
          (case find (\<lambda>r. r_user_id r = u_id current_user
                           \<and> r_product_id r = rc_product_id review
                           \<and> r_is_active r) (reviews db) of
             Some existing_review \<Rightarrow>
               (Inl (HTTPException HTTP_400_BAD_REQUEST
                       ''You have already left a review for this product''), db)
           | None \<Rightarrow>
               (let db_review = \<lparr>r_id = fresh_id (reviews db),
                                 r_user_id = u_id current_user,
                                 r_product_id = rc_product_id review,
                                 r_comment = rc_comment review,
                                 r_grade = rc_grade review,
                                 r_is_active = True\<rparr>;
                    db1 = db\<lparr>reviews := reviews db @ [db_review]\<rparr>
                in (Inr db_review, update_product_rating db1 (rc_product_id review)))))"

definition delete_review ::
  "int \<Rightarrow> database \<Rightarrow> UserModel \<Rightarrow> (HTTPException + (string \<times> string) list) \<times> database" where
  "delete_review review_id db current_user =
     (case find (\<lambda>r. r_id r = review_id \<and> r_is_active r) (reviews db) of
        None \<Rightarrow>
          (Inl (HTTPException HTTP_404_NOT_FOUND ''Review not found or already inactive''), db)
      | Some review \<Rightarrow>
          (let product_id = r_product_id review;
               db1 = db\<lparr>reviews := deactivate review_id (reviews db)\<rparr>
           in (Inr [(''message'', ''Review deleted'')], update_product_rating db1 product_id)))"

section \<open>Sequences of operations\<close>

text \<open>
  The operations that touch the store, and the state each one leaves: the three handlers and
  the helper. \<^verbatim>\<open>get_all_reviews\<close> only reads. A handler that raises leaves the state its
  definition returns beside the exception.
\<close>

datatype operation =
    GetAllReviews
  | CreateReview ReviewCreate UserModel
  | DeleteReview int UserModel
  | UpdateProductRating int

fun exec :: "operation \<Rightarrow> database \<Rightarrow> database" where
  "exec GetAllReviews db = db"
| "exec (CreateReview review current_user) db = snd (create_review review db current_user)"
| "exec (DeleteReview review_id current_user) db = snd (delete_review review_id db current_user)"
| "exec (UpdateProductRating product_id) db = update_product_rating db product_id"


fun run :: "operation list \<Rightarrow> database \<Rightarrow> database" where
  "run [] db = db"
| "run (x # xs) db = run xs (exec x db)"


section \<open>What the specification says of a state\<close>

text \<open>
  The rating the specification gives a product: the mean of the grades of its active reviews,
  rounded to two decimals, or zero when it has no active review. Written from the
  specification's sentence, to be compared with what \<open>update_product_rating\<close> stores.
\<close>

definition spec_rating :: "Review list \<Rightarrow> int \<Rightarrow> rat" where
  "spec_rating rs product_id =
     (let act = filter (\<lambda>r. r_is_active r \<and> r_product_id r = product_id) rs
      in if length act = 0 then 0
         else round2 (of_int (\<Sum>r\<leftarrow>act. r_grade r) / of_int (int (length act))))"


text \<open>The active reviews of one user for one product.\<close>

definition active_reviews_of :: "Review list \<Rightarrow> int \<Rightarrow> int \<Rightarrow> Review list" where
  "active_reviews_of rs user_id product_id =
     filter (\<lambda>r. r_user_id r = user_id \<and> r_product_id r = product_id \<and> r_is_active r) rs"

definition one_active_review :: "database \<Rightarrow> bool" where
  "one_active_review db =
     (\<forall>user_id product_id. length (active_reviews_of (reviews db) user_id product_id) \<le> 1)"


section \<open>Example states\<close>

text \<open>Two buyers, an administrator and a request body for a product and a grade.\<close>

definition buyer_a :: UserModel where
  "buyer_a = \<lparr>u_id = 10\<rparr>"

definition buyer_b :: UserModel where
  "buyer_b = \<lparr>u_id = 11\<rparr>"

definition admin_user :: UserModel where
  "admin_user = \<lparr>u_id = 1\<rparr>"

definition post :: "int \<Rightarrow> int \<Rightarrow> ReviewCreate" where
  "post product_id grade = \<lparr>rc_product_id = product_id, rc_comment = ''fine'', rc_grade = grade\<rparr>"

text \<open>A shop with one active product, number 7, and no review yet.\<close>

definition shop :: database where
  "shop = \<lparr>reviews = [], products = [7 \<mapsto> \<lparr>p_rating = 0, p_is_active = True\<rparr>]\<rparr>"

text \<open>The same shop after buyer A has reviewed product 7 with grade 4.\<close>

definition reviewed_shop :: database where
  "reviewed_shop =
     \<lparr>reviews = [\<lparr>r_id = 1, r_user_id = 10, r_product_id = 7, r_comment = ''fine'',
                  r_grade = 4, r_is_active = True\<rparr>],
      products = [7 \<mapsto> \<lparr>p_rating = 4, p_is_active = True\<rparr>]\<rparr>"

text \<open>The product was taken off sale after buyer A reviewed it; the review stays active.\<close>

definition retired_shop :: database where
  "retired_shop =
     \<lparr>reviews = [\<lparr>r_id = 1, r_user_id = 10, r_product_id = 7, r_comment = ''fine'',
                  r_grade = 4, r_is_active = True\<rparr>],
      products = [7 \<mapsto> \<lparr>p_rating = 4, p_is_active = False\<rparr>]\<rparr>"

text \<open>The review of buyer A was deleted by an administrator.\<close>

definition moderated_shop :: database where
  "moderated_shop =
     \<lparr>reviews = [\<lparr>r_id = 1, r_user_id = 10, r_product_id = 7, r_comment = ''fine'',
                  r_grade = 4, r_is_active = False\<rparr>],
      products = [7 \<mapsto> \<lparr>p_rating = 0, p_is_active = True\<rparr>]\<rparr>"

section \<open>Evaluation of the definitions on concrete states\<close>

lemmas example_defs = buyer_a_def buyer_b_def admin_user_def post_def shop_def reviewed_shop_def
  retired_shop_def moderated_shop_def

lemmas handler_defs = create_review_def delete_review_def update_product_rating_def
  active_product_def avg_grade_def active_grades_def scalar_or_zero_def round2_def
  round_half_even_def fresh_id_def deactivate_def HTTP_404_NOT_FOUND_def
  HTTP_400_BAD_REQUEST_def Let_def

section \<open>What the helper stores is the rating of the specification\<close>

lemma round2_zero: "round2 0 = 0"
  by (simp add: round2_def round_half_even_def)

lemma stored_rating_eq_spec:
  "round2 (scalar_or_zero (avg_grade rs pid)) = spec_rating rs pid"
  by (simp add: scalar_or_zero_def avg_grade_def spec_rating_def active_grades_def Let_def
      round2_zero conj_commute)

lemma reviews_update_product_rating [simp]:
  "reviews (update_product_rating db pid) = reviews db"
  by (simp add: update_product_rating_def Let_def split: option.splits)








lemma le_fold_max: "x \<in> set xs \<Longrightarrow> (x::int) \<le> fold max xs a"
  by (metis Max.set_eq_fold Max_ge List.finite_set list.set_intros(2))

lemma fresh_id_fresh: "fresh_id rs \<notin> r_id ` set rs"
proof
  assume "fresh_id rs \<in> r_id ` set rs"
  then have "fresh_id rs \<in> set (map r_id rs)" by simp
  then have "fresh_id rs \<le> fold max (map r_id rs) 0" by (rule le_fold_max)
  then show False by (simp add: fresh_id_def)
qed

lemma map_id_deactivate [simp]: "map r_id (deactivate rid rs) = map r_id rs"
  by (simp add: deactivate_def comp_def if_distrib cong: if_cong)

lemma length_deactivate [simp]: "length (deactivate rid rs) = length rs"
  by (simp add: deactivate_def)




section \<open>One active review for each user and product\<close>

lemma length_filter_deactivate:
  "length (filter (\<lambda>r. P r \<and> r_is_active r) (deactivate rid rs))
     \<le> length (filter (\<lambda>r. P r \<and> r_is_active r) rs)"
  by (induction rs) (auto simp: deactivate_def)

lemma active_reviews_of_deactivate:
  "length (active_reviews_of (deactivate rid rs) u q) \<le> length (active_reviews_of rs u q)"
  using length_filter_deactivate [of "\<lambda>r. r_user_id r = u \<and> r_product_id r = q" rid rs]
  by (simp add: active_reviews_of_def conj_assoc)

lemma find_None_active_reviews_of:
  "find (\<lambda>r. r_user_id r = u \<and> r_product_id r = q \<and> r_is_active r) rs = None
     \<longleftrightarrow> active_reviews_of rs u q = []"
  by (auto simp: find_None_iff active_reviews_of_def filter_empty_conv)

lemma exec_one_active_review:
  assumes "one_active_review db"
  shows "one_active_review (exec x db)"
proof (cases x)
  case GetAllReviews
  then show ?thesis using assms by simp
next
  case (CreateReview review u)
  show ?thesis
  proof (cases "fst (create_review review db u)")
    case (Inl e)
    then have "snd (create_review review db u) = db"
      by (auto simp: create_review_def Let_def split: option.splits)
    then show ?thesis using assms CreateReview by simp
  next
    case (Inr r)
    then have none: "active_reviews_of (reviews db) (u_id u) (rc_product_id review) = []"
      and rs: "reviews (snd (create_review review db u)) = reviews db @ [r]"
      and r: "r_user_id r = u_id u" "r_product_id r = rc_product_id review"
      by (auto simp: create_review_def Let_def find_None_active_reviews_of split: option.splits)
    have "length (active_reviews_of (reviews db @ [r]) v q) \<le> 1" for v q
    proof (cases "v = u_id u \<and> q = rc_product_id review")
      case True
      then show ?thesis using none by (simp add: active_reviews_of_def)
    next
      case False
      then have "active_reviews_of (reviews db @ [r]) v q = active_reviews_of (reviews db) v q"
        using r by (auto simp: active_reviews_of_def)
      then show ?thesis using assms by (simp add: one_active_review_def)
    qed
    then show ?thesis using CreateReview rs by (simp add: one_active_review_def)
  qed
next
  case (DeleteReview rid u)
  have "reviews (snd (delete_review rid db u)) = reviews db
      \<or> reviews (snd (delete_review rid db u)) = deactivate rid (reviews db)"
    by (simp add: delete_review_def Let_def split: option.splits)
  moreover have "length (active_reviews_of (deactivate rid (reviews db)) v q) \<le> 1" for v q
    using active_reviews_of_deactivate [of rid "reviews db" v q] assms
    by (simp add: one_active_review_def le_trans)
  ultimately show ?thesis using assms DeleteReview
    by (auto simp: one_active_review_def)
next
  case (UpdateProductRating pid)
  then show ?thesis using assms by (simp add: one_active_review_def)
qed

lemma run_one_active_review: "one_active_review db \<Longrightarrow> one_active_review (run ops db)"
  by (induction ops arbitrary: db) (simp_all add: exec_one_active_review)

lemma exec_inactive_row:
  assumes "i < length (reviews db)" "\<not> r_is_active (reviews db ! i)"
  shows "i < length (reviews (exec x db)) \<and> reviews (exec x db) ! i = reviews db ! i"
  using assms
  by (cases x)
    (auto simp: create_review_def delete_review_def deactivate_def Let_def nth_append
      split: option.splits)

lemma run_inactive_row:
  "i < length (reviews db) \<Longrightarrow> \<not> r_is_active (reviews db ! i) \<Longrightarrow>
     i < length (reviews (run ops db)) \<and> reviews (run ops db) ! i = reviews db ! i"
proof (induction ops arbitrary: db)
  case Nil
  then show ?case by simp
next
  case (Cons x ops)
  from exec_inactive_row [OF Cons.prems, of x]
  have 1: "i < length (reviews (exec x db))" and 2: "reviews (exec x db) ! i = reviews db ! i"
    by simp_all
  from 2 Cons.prems(2) have 3: "\<not> r_is_active (reviews (exec x db) ! i)" by simp
  from Cons.IH [OF 1 3] 2 show ?case by simp
qed

section \<open>Facts for tracing a run\<close>

lemma find_append_None: "find P xs = None \<Longrightarrow> find P (xs @ ys) = find P ys"
  by (induction xs) (auto split: if_splits)

lemma deactivate_absent: "rid \<notin> r_id ` set rs \<Longrightarrow> deactivate rid rs = rs"
  by (induction rs) (auto simp: deactivate_def)

lemma deactivate_append: "deactivate rid (xs @ ys) = deactivate rid xs @ deactivate rid ys"
  by (simp add: deactivate_def)

lemma spec_rating_skip:
  "\<forall>r\<in>set rs. r_product_id r \<noteq> q \<Longrightarrow> spec_rating (rs @ xs) q = spec_rating xs q"
  by (simp add: spec_rating_def)

lemma round2_scenario: "round2 4 = 4" "round2 (9 / 2) = 9 / 2" "round2 5 = 5"
  by (simp_all add: round2_def round_half_even_def Let_def)

lemma update_product_rating_present:
  "products db q = Some p \<Longrightarrow>
     update_product_rating db q
       = db\<lparr>products := (products db)(q \<mapsto> p\<lparr>p_rating := spec_rating (reviews db) q\<rparr>)\<rparr>"
  by (simp add: update_product_rating_def Let_def stored_rating_eq_spec)

section \<open>The claims\<close>



text \<open>
  C2, as the code has it. A caller who already has an active review of a product cannot add a
  second one: the call raises and leaves the store as it was. The exception is the conflict
  (status 400) when the product exists and is active; the product is looked up first, so when
  it is missing or inactive the exception is the one for a product not found (status 404).
\<close>

theorem create_review_duplicate_rejected:
  assumes "\<exists>r\<in>set (reviews db). r_user_id r = u_id current_user
             \<and> r_product_id r = rc_product_id review \<and> r_is_active r"
  shows "create_review review db current_user =
     (if \<exists>p. products db (rc_product_id review) = Some p \<and> p_is_active p
      then (Inl (HTTPException 400 ''You have already left a review for this product''), db)
      else (Inl (HTTPException 404 ''Product not found or inactive''), db))"
proof -
  from assms have "find (\<lambda>r. r_user_id r = u_id current_user
      \<and> r_product_id r = rc_product_id review \<and> r_is_active r) (reviews db) \<noteq> None"
    by (simp add: find_None_iff) blast
  then show ?thesis
    by (auto simp: create_review_def active_product_def HTTP_404_NOT_FOUND_def
        HTTP_400_BAD_REQUEST_def split: option.splits)
qed

theorem create_review_duplicate_rejected_witness:
  "(\<exists>r\<in>set (reviews reviewed_shop). r_user_id r = u_id buyer_a
      \<and> r_product_id r = rc_product_id (post 7 5) \<and> r_is_active r)
   \<and> create_review (post 7 5) reviewed_shop buyer_a
       = (Inl (HTTPException 400 ''You have already left a review for this product''),
          reviewed_shop)"
proof -
  have h: "\<exists>r\<in>set (reviews reviewed_shop). r_user_id r = u_id buyer_a
      \<and> r_product_id r = rc_product_id (post 7 5) \<and> r_is_active r"
    by (simp add: example_defs)
  have a: "\<exists>p. products reviewed_shop (rc_product_id (post 7 5)) = Some p \<and> p_is_active p"
    by (simp add: example_defs)
  from create_review_duplicate_rejected [OF h] a h show ?thesis by simp
qed

text \<open>
  C2, as the specification states it, fails where the product was taken off sale after the
  caller reviewed it: buyer A has an active review of product 7, and a second review is refused
  with status 404, not 400.
\<close>

theorem create_review_duplicate_counterexample:
  "(\<exists>r\<in>set (reviews retired_shop). r_user_id r = u_id buyer_a
      \<and> r_product_id r = rc_product_id (post 7 5) \<and> r_is_active r)
   \<and> fst (create_review (post 7 5) retired_shop buyer_a)
       = Inl (HTTPException 404 ''Product not found or inactive'')
   \<and> fst (create_review (post 7 5) retired_shop buyer_a)
       \<noteq> Inl (HTTPException 400 ''You have already left a review for this product'')"
  by (simp add: example_defs handler_defs)

text \<open>
  C3. At most one active review for each pair of a user and a product: a state with this
  property keeps it through any sequence of operations.
\<close>

theorem one_active_review_preserved:
  assumes "one_active_review db"
  shows "one_active_review (run ops db)"
  using assms by (rule run_one_active_review)

theorem one_active_review_preserved_witness:
  "one_active_review reviewed_shop
   \<and> one_active_review (run [CreateReview (post 7 5) buyer_a, CreateReview (post 7 5) buyer_b,
        DeleteReview 1 admin_user, CreateReview (post 7 2) buyer_a] reviewed_shop)"
proof -
  have i: "one_active_review reviewed_shop"
    by (simp add: one_active_review_def reviewed_shop_def active_reviews_of_def)
  from one_active_review_preserved [OF i] i show ?thesis by blast
qed

text \<open>
  C4. Creating a review of a product that does not exist, or that is not active, raises the
  exception with status 404.
\<close>

theorem create_review_product_not_found:
  assumes "products db (rc_product_id review) = None
           \<or> (\<exists>p. products db (rc_product_id review) = Some p \<and> \<not> p_is_active p)"
  shows "fst (create_review review db current_user)
           = Inl (HTTPException 404 ''Product not found or inactive'')"
  using assms
  by (auto simp: create_review_def active_product_def HTTP_404_NOT_FOUND_def)

theorem create_review_product_not_found_witness:
  "products shop (rc_product_id (post 8 5)) = None
   \<and> fst (create_review (post 8 5) shop buyer_a)
       = Inl (HTTPException 404 ''Product not found or inactive'')
   \<and> (\<exists>p. products retired_shop (rc_product_id (post 7 5)) = Some p \<and> \<not> p_is_active p)
   \<and> fst (create_review (post 7 5) retired_shop buyer_b)
       = Inl (HTTPException 404 ''Product not found or inactive'')"
proof -
  have m: "products shop (rc_product_id (post 8 5)) = None"
    by (simp add: example_defs)
  have n: "\<exists>p. products retired_shop (rc_product_id (post 7 5)) = Some p \<and> \<not> p_is_active p"
    by (simp add: example_defs)
  from create_review_product_not_found [OF disjI1, OF m, of buyer_a]
    create_review_product_not_found [OF disjI2, OF n, of buyer_b] m n
  show ?thesis by blast
qed

text \<open>
  C5. Deleting a review whose key is not in the table, or is the key of an inactive review,
  raises the exception with status 404 and changes nothing. A successful deletion removes no
  row: the table keeps its length and its order, the row with the key is the row it was with
  the flag \<open>r_is_active\<close> cleared, and every other row is the row it was.
\<close>

theorem delete_review_soft:
  "(\<not> (\<exists>r\<in>set (reviews db). r_id r = review_id \<and> r_is_active r) \<longrightarrow>
      delete_review review_id db current_user
        = (Inl (HTTPException 404 ''Review not found or already inactive''), db))
   \<and> (\<forall>answer db'. delete_review review_id db current_user = (Inr answer, db') \<longrightarrow>
        length (reviews db') = length (reviews db)
        \<and> (\<forall>i<length (reviews db).
              reviews db' ! i =
                (if r_id (reviews db ! i) = review_id
                 then (reviews db ! i)\<lparr>r_is_active := False\<rparr>
                 else reviews db ! i)))"
proof (intro conjI impI allI)
  assume "\<not> (\<exists>r\<in>set (reviews db). r_id r = review_id \<and> r_is_active r)"
  then have "find (\<lambda>r. r_id r = review_id \<and> r_is_active r) (reviews db) = None"
    by (simp add: find_None_iff)
  then show "delete_review review_id db current_user
      = (Inl (HTTPException 404 ''Review not found or already inactive''), db)"
    by (simp add: delete_review_def HTTP_404_NOT_FOUND_def)
next
  fix answer db'
  assume ok: "delete_review review_id db current_user = (Inr answer, db')"
  then have rs: "reviews db' = deactivate review_id (reviews db)"
    by (auto simp: delete_review_def Let_def split: option.splits)
  show "length (reviews db') = length (reviews db)"
    by (simp add: rs)
  fix i
  assume "i < length (reviews db)"
  then show "reviews db' ! i =
      (if r_id (reviews db ! i) = review_id
       then (reviews db ! i)\<lparr>r_is_active := False\<rparr>
       else reviews db ! i)"
    by (simp add: rs deactivate_def)
qed

theorem delete_review_soft_witness:
  "\<not> (\<exists>r\<in>set (reviews moderated_shop). r_id r = 1 \<and> r_is_active r)
   \<and> delete_review 1 moderated_shop admin_user
       = (Inl (HTTPException 404 ''Review not found or already inactive''), moderated_shop)
   \<and> delete_review 1 reviewed_shop admin_user
       = (Inr [(''message'', ''Review deleted'')], moderated_shop)
   \<and> reviews moderated_shop ! 0 = (reviews reviewed_shop ! 0)\<lparr>r_is_active := False\<rparr>"
proof -
  have h: "\<not> (\<exists>r\<in>set (reviews moderated_shop). r_id r = 1 \<and> r_is_active r)"
    by (simp add: example_defs)
  have d: "delete_review 1 reviewed_shop admin_user
      = (Inr [(''message'', ''Review deleted'')], moderated_shop)"
    by (simp add: example_defs handler_defs)
  have l: "0 < length (reviews reviewed_shop)" "r_id (reviews reviewed_shop ! 0) = 1"
    by (simp_all add: example_defs)
  from delete_review_soft [of moderated_shop 1 admin_user] h
  have 1: "delete_review 1 moderated_shop admin_user
      = (Inl (HTTPException 404 ''Review not found or already inactive''), moderated_shop)"
    by blast
  from delete_review_soft [of reviewed_shop 1 admin_user] d l
  have 2: "reviews moderated_shop ! 0 = (reviews reviewed_shop ! 0)\<lparr>r_is_active := False\<rparr>"
    by (metis (no_types, lifting))
  from h 1 d 2 show ?thesis by blast
qed

text \<open>
  C6. Recomputing the rating of a product that has no row returns the store as it was; the
  helper has no path that raises.
\<close>

theorem update_product_rating_missing_product:
  assumes "products db product_id = None"
  shows "update_product_rating db product_id = db"
  using assms by (simp add: update_product_rating_def Let_def)

theorem update_product_rating_missing_product_witness:
  "products reviewed_shop 8 = None \<and> update_product_rating reviewed_shop 8 = reviewed_shop"
proof -
  have m: "products reviewed_shop 8 = None"
    by (simp add: example_defs)
  from update_product_rating_missing_product [OF m] m show ?thesis by blast
qed

text \<open>
  C7. The scenario of the specification, from any state with an active product P that no
  review row mentions: buyer A's review with grade 4 is created and the rating of P is 4;
  buyer B's review with grade 5 is created and the rating is 4.5; the deletion of A's review
  succeeds and the rating is 5.
\<close>

theorem rating_scenario:
  assumes P: "products db P = Some p" "p_is_active p"
    and none: "filter (\<lambda>r. r_product_id r = P) (reviews db) = []"
    and ab: "u_id a \<noteq> u_id b"
    and ra: "rc_product_id ra = P" "rc_grade ra = 4"
    and rb: "rc_product_id rb = P" "rc_grade rb = 5"
  shows "\<exists>review_a db1 review_b db2 db3.
      create_review ra db a = (Inr review_a, db1)
    \<and> map_option p_rating (products db1 P) = Some 4
    \<and> create_review rb db1 b = (Inr review_b, db2)
    \<and> map_option p_rating (products db2 P) = Some (9 / 2)
    \<and> delete_review (r_id review_a) db2 admin = (Inr [(''message'', ''Review deleted'')], db3)
    \<and> map_option p_rating (products db3 P) = Some 5"
proof -
  define rs where "rs = reviews db"
  define review_a where "review_a = \<lparr>r_id = fresh_id rs, r_user_id = u_id a, r_product_id = P,
    r_comment = rc_comment ra, r_grade = 4, r_is_active = True\<rparr>"
  define review_b where "review_b = \<lparr>r_id = fresh_id (rs @ [review_a]), r_user_id = u_id b,
    r_product_id = P, r_comment = rc_comment rb, r_grade = 5, r_is_active = True\<rparr>"
  define db1 where "db1 = \<lparr>reviews = rs @ [review_a],
    products = (products db)(P \<mapsto> p\<lparr>p_rating := 4\<rparr>)\<rparr>"
  define db2 where "db2 = \<lparr>reviews = rs @ [review_a, review_b],
    products = (products db)(P \<mapsto> p\<lparr>p_rating := 9 / 2\<rparr>)\<rparr>"
  define db3 where "db3 = \<lparr>reviews = rs @ [review_a\<lparr>r_is_active := False\<rparr>, review_b],
    products = (products db)(P \<mapsto> p\<lparr>p_rating := 5\<rparr>)\<rparr>"
  have none': "\<forall>r\<in>set rs. r_product_id r \<noteq> P"
    using none by (simp add: rs_def filter_empty_conv)
  have db: "db = \<lparr>reviews = rs, products = products db\<rparr>" by (simp add: rs_def)
  have id_a: "r_id review_a \<notin> r_id ` set rs"
    using fresh_id_fresh [of rs] by (simp add: review_a_def)
  have id_b: "r_id review_b \<noteq> r_id review_a"
    using fresh_id_fresh [of "rs @ [review_a]"] by (simp add: review_b_def)
  have s1: "spec_rating (rs @ [review_a]) P = 4"
    using none' by (simp add: spec_rating_skip) (simp add: spec_rating_def review_a_def round2_scenario)
  have s2: "spec_rating (rs @ [review_a, review_b]) P = 9 / 2"
    using none' by (simp add: spec_rating_skip)
      (simp add: spec_rating_def review_a_def review_b_def round2_scenario)
  have s3: "spec_rating (rs @ [review_a\<lparr>r_is_active := False\<rparr>, review_b]) P = 5"
    using none' by (simp add: spec_rating_skip)
      (simp add: spec_rating_def review_a_def review_b_def round2_scenario)
  have f1: "find (\<lambda>r. r_user_id r = u_id a \<and> r_product_id r = P \<and> r_is_active r) rs = None"
    using none' by (auto simp: find_None_iff)
  have c1: "create_review ra db a = (Inr review_a, db1)"
    using P ra f1
    by (simp add: create_review_def active_product_def Let_def rs_def [symmetric]
        update_product_rating_present s1 [unfolded review_a_def] review_a_def db1_def)
  have f2: "find (\<lambda>r. r_user_id r = u_id b \<and> r_product_id r = P \<and> r_is_active r)
      (rs @ [review_a]) = None"
  proof -
    have "find (\<lambda>r. r_user_id r = u_id b \<and> r_product_id r = P \<and> r_is_active r) rs = None"
      using none' by (auto simp: find_None_iff)
    then show ?thesis using ab by (simp add: find_append_None) (simp add: review_a_def)
  qed
  have c2: "create_review rb db1 b = (Inr review_b, db2)"
    using P rb f2
    by (simp add: create_review_def active_product_def Let_def db1_def
        update_product_rating_present s2 [unfolded review_b_def] review_b_def db2_def)
  have f3: "find (\<lambda>r. r_id r = r_id review_a \<and> r_is_active r) (rs @ [review_a, review_b])
      = Some review_a"
  proof -
    have "find (\<lambda>r. r_id r = r_id review_a \<and> r_is_active r) rs = None"
      using id_a by (simp add: find_None_iff) (metis imageI)
    then show ?thesis by (simp add: find_append_None) (simp add: review_a_def)
  qed
  have d3: "deactivate (r_id review_a) (rs @ [review_a, review_b])
      = rs @ [review_a\<lparr>r_is_active := False\<rparr>, review_b]"
    using id_b by (simp add: deactivate_append deactivate_absent [OF id_a]) (simp add: deactivate_def)
  have pa: "r_product_id review_a = P" by (simp add: review_a_def)
  have c3: "delete_review (r_id review_a) db2 admin = (Inr [(''message'', ''Review deleted'')], db3)"
    using f3 pa
    by (simp add: delete_review_def Let_def db2_def d3 update_product_rating_present s3 db3_def)
  show ?thesis
    using c1 c2 c3 by (intro exI [of _ review_a] exI [of _ db1] exI [of _ review_b]
        exI [of _ db2] exI [of _ db3]) (simp add: db1_def db2_def db3_def)
qed

theorem rating_scenario_witness:
  "products shop 7 = Some \<lparr>p_rating = 0, p_is_active = True\<rparr>
   \<and> filter (\<lambda>r. r_product_id r = 7) (reviews shop) = []
   \<and> u_id buyer_a \<noteq> u_id buyer_b
   \<and> (\<exists>review_a db1 review_b db2 db3.
        create_review (post 7 4) shop buyer_a = (Inr review_a, db1)
      \<and> map_option p_rating (products db1 7) = Some 4
      \<and> create_review (post 7 5) db1 buyer_b = (Inr review_b, db2)
      \<and> map_option p_rating (products db2 7) = Some (9 / 2)
      \<and> delete_review (r_id review_a) db2 admin_user
           = (Inr [(''message'', ''Review deleted'')], db3)
      \<and> map_option p_rating (products db3 7) = Some 5)"
proof -
  have p: "products shop 7 = Some \<lparr>p_rating = 0, p_is_active = True\<rparr>"
    and a: "p_is_active \<lparr>p_rating = 0, p_is_active = True\<rparr>"
    and n: "filter (\<lambda>r. r_product_id r = 7) (reviews shop) = []"
    and u: "u_id buyer_a \<noteq> u_id buyer_b"
    and g: "rc_product_id (post 7 4) = 7" "rc_grade (post 7 4) = 4"
      "rc_product_id (post 7 5) = 7" "rc_grade (post 7 5) = 5"
    by (simp_all add: example_defs)
  from rating_scenario [OF p a n u g, of admin_user] p n u show ?thesis by blast
qed

text \<open>
  C8. A review row that is inactive stays as it is, and so inactive, through every sequence of
  the operations \<open>get_all_reviews\<close>, \<open>create_review\<close>, \<open>delete_review\<close> and
  \<open>update_product_rating\<close>; a row is followed by its place in the table, which no operation
  changes.
\<close>

theorem inactive_review_stays_inactive:
  assumes "i < length (reviews db)" and "\<not> r_is_active (reviews db ! i)"
  shows "i < length (reviews (run ops db))
         \<and> reviews (run ops db) ! i = reviews db ! i
         \<and> \<not> r_is_active (reviews (run ops db) ! i)"
  using run_inactive_row [OF assms, of ops] assms(2) by simp

theorem inactive_review_stays_inactive_witness:
  "0 < length (reviews moderated_shop) \<and> \<not> r_is_active (reviews moderated_shop ! 0)
   \<and> \<not> r_is_active (reviews (run [DeleteReview 1 admin_user, CreateReview (post 7 3) buyer_a,
          GetAllReviews, UpdateProductRating 7] moderated_shop) ! 0)"
proof -
  have l: "0 < length (reviews moderated_shop)"
    and f: "\<not> r_is_active (reviews moderated_shop ! 0)"
    by (simp_all add: example_defs)
  from inactive_review_stays_inactive [OF l f] l f show ?thesis by blast
qed

text \<open>
  C9. \<open>get_all_reviews\<close> answers with the active rows of the review table and nothing else:
  the same rows, each as often as the table holds it, whatever the product table says of their
  products.
\<close>

theorem get_all_reviews_exact:
  "set (get_all_reviews db) = {r. r \<in> set (reviews db) \<and> r_is_active r}
   \<and> mset (get_all_reviews db) = filter_mset r_is_active (mset (reviews db))
   \<and> get_all_reviews (db\<lparr>products := ps\<rparr>) = get_all_reviews db"
  by (simp add: get_all_reviews_def)

text \<open>
  C10. A call of \<open>create_review\<close> that raises leaves the store as it was: no review row is
  added and no rating is changed. The exception is one of the two the handler raises.
\<close>

theorem create_review_error_atomic:
  assumes "fst (create_review review db current_user) = Inl e"
  shows "snd (create_review review db current_user) = db
         \<and> (e = HTTPException 404 ''Product not found or inactive''
            \<or> e = HTTPException 400 ''You have already left a review for this product'')"
  using assms
  by (auto simp: create_review_def Let_def HTTP_404_NOT_FOUND_def HTTP_400_BAD_REQUEST_def
      split: option.splits)

theorem create_review_error_atomic_witness:
  "fst (create_review (post 8 5) reviewed_shop buyer_b)
     = Inl (HTTPException 404 ''Product not found or inactive'')
   \<and> snd (create_review (post 8 5) reviewed_shop buyer_b) = reviewed_shop
   \<and> fst (create_review (post 7 5) reviewed_shop buyer_a)
     = Inl (HTTPException 400 ''You have already left a review for this product'')
   \<and> snd (create_review (post 7 5) reviewed_shop buyer_a) = reviewed_shop"
proof -
  have n: "fst (create_review (post 8 5) reviewed_shop buyer_b)
      = Inl (HTTPException 404 ''Product not found or inactive'')"
    and c: "fst (create_review (post 7 5) reviewed_shop buyer_a)
      = Inl (HTTPException 400 ''You have already left a review for this product'')"
    by (simp_all add: example_defs handler_defs)
  from create_review_error_atomic [OF n] create_review_error_atomic [OF c] n c
  show ?thesis by blast
qed

end
